theory Spec2Isabelle
  imports Main
begin

section \<open>Conference Central: query filters, registration and wishlist\<close>

text \<open>
  A shallow embedding of the parts of \<^verbatim>\<open>conference.py\<close> that validate and compose
  query filters (\<^verbatim>\<open>_format_filters\<close>, \<^verbatim>\<open>_get_query\<close>), register a user for a
  conference (\<^verbatim>\<open>_conference_registration\<close>) and maintain the session wishlist
  (\<^verbatim>\<open>add_session_to_wishlist\<close>, \<^verbatim>\<open>delete_session_in_wishlist\<close>).
  Exceptions are values of the type \<open>error\<close>; a function that may raise returns
  \<open>error + 'a\<close>, with \<open>Inl\<close> for the exception.
\<close>

subsection \<open>Exceptions\<close>

datatype error =
    BadRequestException string
  | ConflictException string
  | NotFoundException string
  | UnauthorizedException string
  | ValueError

text \<open>
  The source raises one exception class, \<^verbatim>\<open>endpoints.BadRequestException\<close>, for both
  rejections of a filter list; the two differ in their message. The specification calls
  them InvalidFilterError and MultipleInequalityFieldsError.
\<close>

definition InvalidFilterError :: error where
  "InvalidFilterError = BadRequestException ''Filter contains invalid field or operator.''"

definition MultipleInequalityFieldsError :: error where
  "MultipleInequalityFieldsError =
     BadRequestException ''Inequality filter is allowed on only one field.''"

subsection \<open>The lookup tables\<close>

definition OPERATORS :: "string \<rightharpoonup> string" where
  "OPERATORS = map_of
     [(''EQ'', ''=''),
      (''GT'', ''>''),
      (''GTEQ'', ''>=''),
      (''LT'', ''<''),
      (''LTEQ'', ''<=''),
      (''NE'', ''!='')]"

definition FIELDS :: "string \<rightharpoonup> string" where
  "FIELDS = map_of
     [(''CITY'', ''city''),
      (''TOPIC'', ''topics''),
      (''MONTH'', ''month''),
      (''MAX_ATTENDEES'', ''maxAttendees'')]"

subsection \<open>Filters\<close>

text \<open>
  Modelled from the spec: the message class \<^verbatim>\<open>ConferenceQueryForm\<close> is declared in
  \<^verbatim>\<open>models.py\<close>, which is not among the sources. The specification gives a filter
  as \<^verbatim>\<open>{field: string, operator: string, value: string}\<close>. The dictionary that
  \<^verbatim>\<open>_format_filters\<close> builds from a message has the same three keys; its value
  becomes an integer in \<^verbatim>\<open>_get_query\<close>, hence the type parameter.
\<close>

record 'v filt =
  field :: string
  operator :: string
  value' :: 'v

text \<open>Python's truth value of \<^verbatim>\<open>inequality_field\<close>: \<^verbatim>\<open>None\<close> and the empty string are false.\<close>

fun truthy :: "string option \<Rightarrow> bool" where
  "truthy None = False"
| "truthy (Some s) = (s \<noteq> [])"

text \<open>
  The loop of \<^verbatim>\<open>_format_filters\<close>, with its two local variables as accumulators.
  A \<^verbatim>\<open>KeyError\<close> of either table lookup is caught and raised again as a
  \<^verbatim>\<open>BadRequestException\<close>; the first exception ends the loop.
\<close>

fun format_filters_loop ::
  "string option \<Rightarrow> string filt list \<Rightarrow> string filt list
     \<Rightarrow> error + (string option \<times> string filt list)" where
  "format_filters_loop inequality_field formatted_filters [] =
     Inr (inequality_field, formatted_filters)"
| "format_filters_loop inequality_field formatted_filters (f # fs) =
     (case FIELDS (field f) of
        None \<Rightarrow> Inl (BadRequestException ''Filter contains invalid field or operator.'')
      | Some fld \<Rightarrow>
         (case OPERATORS (operator f) of
            None \<Rightarrow> Inl (BadRequestException ''Filter contains invalid field or operator.'')
          | Some opr \<Rightarrow>
             (let filters = f\<lparr>field := fld, operator := opr\<rparr> in
              if opr \<noteq> ''='' then
                if truthy inequality_field \<and> inequality_field \<noteq> Some fld
                then Inl (BadRequestException
                            ''Inequality filter is allowed on only one field.'')
                else format_filters_loop (Some fld) (formatted_filters @ [filters]) fs
              else format_filters_loop inequality_field (formatted_filters @ [filters]) fs)))"

definition format_filters ::
  "string filt list \<Rightarrow> error + (string option \<times> string filt list)" where
  "format_filters filters = format_filters_loop None [] filters"

subsection \<open>Conversion of a value to an integer\<close>

text \<open>
  Python's \<^verbatim>\<open>int\<close> on the value of a filter, a unicode text: blanks around the
  number are dropped, one sign may precede the digits, and there is at least one decimal
  digit. Any other text raises \<^verbatim>\<open>ValueError\<close>, here \<open>None\<close>. A character of the
  model is a code point below 256; the blanks of a unicode text among these are
  U+0009 to U+000D, U+001C to U+001F, U+0020, U+0085 and U+00A0.
\<close>

definition is_space :: "char \<Rightarrow> bool" where
  "is_space c =
     (c \<in> set [CHR 0x09, CHR 0x0A, CHR 0x0B, CHR 0x0C, CHR 0x0D,
                CHR 0x1C, CHR 0x1D, CHR 0x1E, CHR 0x1F, CHR '' '', CHR 0x85, CHR 0xA0])"

definition is_digit :: "char \<Rightarrow> bool" where
  "is_digit c = (48 \<le> (of_char c :: nat) \<and> (of_char c :: nat) \<le> 57)"

definition strip :: "string \<Rightarrow> string" where
  "strip s = rev (dropWhile is_space (rev (dropWhile is_space s)))"

definition parse_digits :: "string \<Rightarrow> nat option" where
  "parse_digits ds =
     (if ds \<noteq> [] \<and> list_all is_digit ds
      then Some (foldl (\<lambda>a c. 10 * a + (of_char c - 48)) 0 ds)
      else None)"

definition py_int :: "string \<Rightarrow> int option" where
  "py_int s =
     (case strip s of
        [] \<Rightarrow> None
      | c # r \<Rightarrow>
          if c = CHR ''-'' then map_option (\<lambda>n. - int n) (parse_digits r)
          else if c = CHR ''+'' then map_option int (parse_digits r)
          else map_option int (parse_digits (c # r)))"

subsection \<open>The query\<close>

text \<open>
  The datastore's query object is built by the platform, not by this repository. The
  model records what \<^verbatim>\<open>_get_query\<close> asks of it: the properties passed to
  \<^verbatim>\<open>order\<close>, in call order, and the nodes passed to \<^verbatim>\<open>filter\<close>, in call order
  (a query is the conjunction of its filters). \<^verbatim>\<open>Conference.name\<close> is the property
  \<^verbatim>\<open>name\<close>.
\<close>

datatype pyval = PyStr string | PyInt int

datatype FilterNode = FilterNode string string pyval

record query =
  orders :: "string list"
  filter_nodes :: "FilterNode list"

definition Conference_query :: query where
  "Conference_query = \<lparr>orders = [], filter_nodes = []\<rparr>"

definition query_order :: "query \<Rightarrow> string \<Rightarrow> query" where
  "query_order q p = q\<lparr>orders := orders q @ [p]\<rparr>"

definition query_filter :: "query \<Rightarrow> FilterNode \<Rightarrow> query" where
  "query_filter q n = q\<lparr>filter_nodes := filter_nodes q @ [n]\<rparr>"

text \<open>
  The second loop of \<^verbatim>\<open>_get_query\<close>: the value of a \<^verbatim>\<open>month\<close> or
  \<^verbatim>\<open>maxAttendees\<close> filter goes through \<^verbatim>\<open>int\<close>, whose \<^verbatim>\<open>ValueError\<close> nothing
  catches.
\<close>

fun apply_filters :: "query \<Rightarrow> string filt list \<Rightarrow> error + query" where
  "apply_filters q [] = Inr q"
| "apply_filters q (filtr # filters) =
     (if field filtr \<in> set [''month'', ''maxAttendees''] then
        (case py_int (value' filtr) of
           None \<Rightarrow> Inl ValueError
         | Some n \<Rightarrow>
             apply_filters
               (query_filter q (FilterNode (field filtr) (operator filtr) (PyInt n))) filters)
      else
        apply_filters
          (query_filter q (FilterNode (field filtr) (operator filtr) (PyStr (value' filtr))))
          filters)"

definition get_query :: "string filt list \<Rightarrow> error + query" where
  "get_query request_filters =
     (case format_filters request_filters of
        Inl e \<Rightarrow> Inl e
      | Inr (inequality_filter, filters) \<Rightarrow>
          (let q = Conference_query;
               q = (if \<not> truthy inequality_filter
                    then query_order q ''name''
                    else query_order (query_order q (the inequality_filter)) ''name'')
           in apply_filters q filters))"

subsection \<open>The filter list as objects in a store\<close>

text \<open>
  The request's filters are message objects, and every dictionary that
  \<^verbatim>\<open>_format_filters\<close> returns is an object it creates. To say what the function
  writes, the same loop is given once more over an explicit store: the messages by
  reference, the dictionaries in creation order (the reference of a dictionary is its
  position). The dictionary comprehension copies the three attributes of the message;
  the two assignments in the \<^verbatim>\<open>try\<close> block then overwrite two of its entries.
\<close>

type_synonym ref = nat

record store =
  messages :: "ref \<Rightarrow> string filt"
  dicts :: "string filt list"

definition new_dict :: "store \<Rightarrow> string filt \<Rightarrow> ref \<times> store" where
  "new_dict h m = (length (dicts h), h\<lparr>dicts := dicts h @ [m]\<rparr>)"

definition dict_get :: "store \<Rightarrow> ref \<Rightarrow> string filt" where
  "dict_get h r = dicts h ! r"

definition set_field :: "store \<Rightarrow> ref \<Rightarrow> string \<Rightarrow> store" where
  "set_field h r v = h\<lparr>dicts := (dicts h)[r := (dicts h ! r)\<lparr>field := v\<rparr>]\<rparr>"

definition set_operator :: "store \<Rightarrow> ref \<Rightarrow> string \<Rightarrow> store" where
  "set_operator h r v = h\<lparr>dicts := (dicts h)[r := (dicts h ! r)\<lparr>operator := v\<rparr>]\<rparr>"

fun format_filters_store_loop ::
  "string option \<Rightarrow> ref list \<Rightarrow> store \<Rightarrow> ref list
     \<Rightarrow> (error + (string option \<times> ref list)) \<times> store" where
  "format_filters_store_loop inequality_field formatted_filters h [] =
     (Inr (inequality_field, formatted_filters), h)"
| "format_filters_store_loop inequality_field formatted_filters h (f # fs) =
     (case new_dict h (messages h f) of (filters, h1) \<Rightarrow>
        (case FIELDS (field (dict_get h1 filters)) of
           None \<Rightarrow> (Inl (BadRequestException ''Filter contains invalid field or operator.''), h1)
         | Some fld \<Rightarrow>
            (let h2 = set_field h1 filters fld in
             case OPERATORS (operator (dict_get h2 filters)) of
               None \<Rightarrow>
                 (Inl (BadRequestException ''Filter contains invalid field or operator.''), h2)
             | Some opr \<Rightarrow>
                (let h3 = set_operator h2 filters opr in
                 if operator (dict_get h3 filters) \<noteq> ''='' then
                   if truthy inequality_field
                      \<and> inequality_field \<noteq> Some (field (dict_get h3 filters))
                   then (Inl (BadRequestException
                                ''Inequality filter is allowed on only one field.''), h3)
                   else format_filters_store_loop (Some (field (dict_get h3 filters)))
                          (formatted_filters @ [filters]) h3 fs
                 else format_filters_store_loop inequality_field
                        (formatted_filters @ [filters]) h3 fs))))"

definition format_filters_store ::
  "store \<Rightarrow> ref list \<Rightarrow> (error + (string option \<times> ref list)) \<times> store" where
  "format_filters_store h filters = format_filters_store_loop None [] h filters"

text \<open>What a caller sees of a result: the exception, or the dictionaries behind the references.\<close>

fun read_result ::
  "(error + (string option \<times> ref list)) \<times> store
     \<Rightarrow> error + (string option \<times> string filt list)" where
  "read_result (Inl e, h) = Inl e"
| "read_result (Inr (g, rs), h) = Inr (g, map (dict_get h) rs)"

subsection \<open>Profiles, conferences and the datastore\<close>

text \<open>
  Modelled from the spec: the entity classes \<^verbatim>\<open>Profile\<close> and \<^verbatim>\<open>Conference\<close> are
  declared in \<^verbatim>\<open>models.py\<close> and \<^verbatim>\<open>utils.get_user_id\<close> in \<^verbatim>\<open>utils.py\<close>;
  neither file is among the sources. The specification speaks of a user's registrations
  and of a conference's seat counter; the records have the attributes that
  \<^verbatim>\<open>conference.py\<close> reads and writes in the operations below, the two key lists being
  repeated properties that start empty. A user carries the identifier that
  \<^verbatim>\<open>get_user_id\<close> returns.
\<close>

record user =
  user_id :: string
  nickname :: string
  email :: string

record Profile =
  displayName :: string
  mainEmail :: string
  teeShirtSize :: string
  conferenceKeysToAttend :: "string list"
  sessionsKeysWishlist :: "string list"

record Conference =
  maxAttendees :: int
  seatsAvailable :: int

text \<open>
  The datastore, one component for each kind of entity. A key is a string: the websafe
  form for a key made by \<^verbatim>\<open>ndb.Key(urlsafe=...)\<close>, and the user identifier for
  \<^verbatim>\<open>ndb.Key(Profile, user_id)\<close>, where it stands for the websafe form of that key. Of
  a session only its key matters here. In \<^verbatim>\<open>_conference_registration\<close> the model
  looks the key up among the conferences: it covers a key that names a conference or
  names nothing.
\<close>

record datastore =
  profiles :: "string \<rightharpoonup> Profile"
  conferences :: "string \<rightharpoonup> Conference"
  sessions :: "string set"

text \<open>
  Whether \<^verbatim>\<open>ndb.Key(urlsafe=key).get()\<close> returns an entity: the wishlist operations
  test no more than that, so the key of an entity of any kind passes.
\<close>

definition entity_exists :: "datastore \<Rightarrow> string \<Rightarrow> bool" where
  "entity_exists ds k =
     (k \<in> sessions ds \<or> conferences ds k \<noteq> None \<or> profiles ds k \<noteq> None)"

definition put_profile :: "string \<Rightarrow> Profile \<Rightarrow> datastore \<Rightarrow> datastore" where
  "put_profile k p ds = ds\<lparr>profiles := (profiles ds)(k \<mapsto> p)\<rparr>"

definition put_conference :: "string \<Rightarrow> Conference \<Rightarrow> datastore \<Rightarrow> datastore" where
  "put_conference k c ds = ds\<lparr>conferences := (conferences ds)(k \<mapsto> c)\<rparr>"

text \<open>
  \<^verbatim>\<open>_get_profile_from_user\<close>: the profile of the current user, created and stored when
  there is none. The result carries the key of the profile, under which a later
  \<^verbatim>\<open>put\<close> stores it.
\<close>

definition get_profile_from_user ::
  "datastore \<Rightarrow> user option \<Rightarrow> error + (string \<times> Profile \<times> datastore)" where
  "get_profile_from_user ds current_user =
     (case current_user of
        None \<Rightarrow> Inl (UnauthorizedException ''Authorization required'')
      | Some u \<Rightarrow>
         (let profile_key = user_id u in
          case profiles ds profile_key of
            Some profile \<Rightarrow> Inr (profile_key, profile, ds)
          | None \<Rightarrow>
             (let profile = \<lparr>displayName = nickname u, mainEmail = email u,
                             teeShirtSize = ''NOT_SPECIFIED'',
                             conferenceKeysToAttend = [], sessionsKeysWishlist = []\<rparr>
              in Inr (profile_key, profile, put_profile profile_key profile ds))))"

text \<open>The body of \<^verbatim>\<open>_conference_registration\<close>.\<close>

definition conference_registration_body ::
  "user option \<Rightarrow> string \<Rightarrow> bool \<Rightarrow> datastore \<Rightarrow> error + (bool \<times> datastore)" where
  "conference_registration_body current_user wsck reg ds =
     (case get_profile_from_user ds current_user of
        Inl e \<Rightarrow> Inl e
      | Inr (profile_key, profile, ds1) \<Rightarrow>
         (case conferences ds1 wsck of
            None \<Rightarrow> Inl (NotFoundException (''No conference found with key: '' @ wsck))
          | Some conference \<Rightarrow>
             if reg then
               if wsck \<in> set (conferenceKeysToAttend profile) then
                 Inl (ConflictException ''You have already registered for this conference'')
               else if seatsAvailable conference \<le> 0 then
                 Inl (ConflictException ''There are no seats available.'')
               else
                 Inr (True,
                      put_conference wsck
                        (conference\<lparr>seatsAvailable := seatsAvailable conference - 1\<rparr>)
                        (put_profile profile_key
                           (profile\<lparr>conferenceKeysToAttend :=
                                       conferenceKeysToAttend profile @ [wsck]\<rparr>) ds1))
             else
               if wsck \<in> set (conferenceKeysToAttend profile) then
                 Inr (True,
                      put_conference wsck
                        (conference\<lparr>seatsAvailable := seatsAvailable conference + 1\<rparr>)
                        (put_profile profile_key
                           (profile\<lparr>conferenceKeysToAttend :=
                                       remove1 wsck (conferenceKeysToAttend profile)\<rparr>) ds1))
               else
                 Inr (False, put_conference wsck conference
                               (put_profile profile_key profile ds1))))"

text \<open>
  \<^verbatim>\<open>@ndb.transactional(xg=True)\<close>: the platform commits every write of the body, or,
  when the body raises, none of them.
\<close>

definition transactional ::
  "(datastore \<Rightarrow> error + ('a \<times> datastore)) \<Rightarrow> datastore \<Rightarrow> (error + 'a) \<times> datastore" where
  "transactional body ds =
     (case body ds of Inl e \<Rightarrow> (Inl e, ds) | Inr (x, ds') \<Rightarrow> (Inr x, ds'))"

definition conference_registration ::
  "datastore \<Rightarrow> user option \<Rightarrow> string \<Rightarrow> bool \<Rightarrow> (error + bool) \<times> datastore" where
  "conference_registration ds current_user wsck reg =
     transactional (conference_registration_body current_user wsck reg) ds"

text \<open>
  The two wishlist operations run outside a transaction: what
  \<^verbatim>\<open>_get_profile_from_user\<close> stored stays stored when a later check raises.
\<close>

definition add_session_to_wishlist ::
  "datastore \<Rightarrow> user option \<Rightarrow> string \<Rightarrow> (error + bool) \<times> datastore" where
  "add_session_to_wishlist ds current_user session_key =
     (case get_profile_from_user ds current_user of
        Inl e \<Rightarrow> (Inl e, ds)
      | Inr (profile_key, profile, ds1) \<Rightarrow>
         if \<not> entity_exists ds1 session_key then
           (Inl (NotFoundException (''No session found with key: '' @ session_key)), ds1)
         else if session_key \<in> set (sessionsKeysWishlist profile) then
           (Inl (ConflictException ''You already have this session in your wishlist.''), ds1)
         else
           (Inr True,
            put_profile profile_key
              (profile\<lparr>sessionsKeysWishlist :=
                          sessionsKeysWishlist profile @ [session_key]\<rparr>) ds1))"

definition delete_session_in_wishlist ::
  "datastore \<Rightarrow> user option \<Rightarrow> string \<Rightarrow> (error + bool) \<times> datastore" where
  "delete_session_in_wishlist ds current_user session_key =
     (case get_profile_from_user ds current_user of
        Inl e \<Rightarrow> (Inl e, ds)
      | Inr (profile_key, profile, ds1) \<Rightarrow>
         if \<not> entity_exists ds1 session_key then
           (Inl (NotFoundException (''No session found with key: '' @ session_key)), ds1)
         else if session_key \<notin> set (sessionsKeysWishlist profile) then
           (Inr False, ds1)
         else
           (Inr True,
            put_profile profile_key
              (profile\<lparr>sessionsKeysWishlist :=
                          remove1 session_key (sessionsKeysWishlist profile)\<rparr>) ds1))"

subsection \<open>Notions of the specification\<close>

text \<open>
  The specification speaks of valid tokens, of the mapped field and operator of a filter,
  of filters that carry a non-equality operator, and of the designated inequality field.
\<close>

definition valid_tokens :: "string filt \<Rightarrow> bool" where
  "valid_tokens f = (FIELDS (field f) \<noteq> None \<and> OPERATORS (operator f) \<noteq> None)"

definition mapped_field :: "string filt \<Rightarrow> string" where
  "mapped_field f = the (FIELDS (field f))"

definition mapped_operator :: "string filt \<Rightarrow> string" where
  "mapped_operator f = the (OPERATORS (operator f))"

definition format_one :: "string filt \<Rightarrow> string filt" where
  "format_one f = f\<lparr>field := mapped_field f, operator := mapped_operator f\<rparr>"

definition inequality :: "string filt \<Rightarrow> bool" where
  "inequality f = (mapped_operator f \<noteq> ''='')"

definition two_inequality_fields :: "string filt list \<Rightarrow> bool" where
  "two_inequality_fields fs =
     (\<exists>f \<in> set fs. \<exists>g \<in> set fs.
        inequality f \<and> inequality g \<and> mapped_field f \<noteq> mapped_field g)"

definition first_inequality_field :: "string filt list \<Rightarrow> string option" where
  "first_inequality_field fs = map_option mapped_field (find inequality fs)"

text \<open>The state of the scan: the field held so far, or else the first one of the rest.\<close>

definition designated :: "string option \<Rightarrow> string filt list \<Rightarrow> string option" where
  "designated cur fs = (case cur of None \<Rightarrow> first_inequality_field fs | Some g \<Rightarrow> Some g)"

definition clash :: "string option \<Rightarrow> string filt list \<Rightarrow> bool" where
  "clash cur fs =
     (\<exists>f \<in> set fs. inequality f \<and> cur \<noteq> None \<and> cur \<noteq> Some (mapped_field f))"

text \<open>A formatted filter whose value \<^verbatim>\<open>int\<close> accepts where it is called, and its node.\<close>

definition numeric_ok :: "string filt \<Rightarrow> bool" where
  "numeric_ok f =
     (field f \<in> set [''month'', ''maxAttendees''] \<longrightarrow> py_int (value' f) \<noteq> None)"

definition node_value :: "string filt \<Rightarrow> pyval" where
  "node_value f =
     (if field f \<in> set [''month'', ''maxAttendees'']
      then PyInt (the (py_int (value' f))) else PyStr (value' f))"

definition filter_node :: "string filt \<Rightarrow> FilterNode" where
  "filter_node f = FilterNode (field f) (operator f) (node_value f)"

definition sort_keys :: "string option \<Rightarrow> string list" where
  "sort_keys g = (case g of None \<Rightarrow> [''name''] | Some p \<Rightarrow> [p, ''name''])"

text \<open>The invariants of the datastore that the operations are to keep.\<close>

definition seats_nonneg :: "datastore \<Rightarrow> bool" where
  "seats_nonneg ds = (\<forall>k c. conferences ds k = Some c \<longrightarrow> 0 \<le> seatsAvailable c)"

definition wishlists_distinct :: "datastore \<Rightarrow> bool" where
  "wishlists_distinct ds =
     (\<forall>k p. profiles ds k = Some p \<longrightarrow> distinct (sessionsKeysWishlist p))"

definition example_filters :: "string filt list" where
  "example_filters =
     [\<lparr>field = ''MONTH'', operator = ''EQ'', value' = ''6''\<rparr>,
      \<lparr>field = ''MAX_ATTENDEES'', operator = ''GT'', value' = ''10''\<rparr>]"

text \<open>A user, a profile and a datastore with one conference and one session, for examples.\<close>

definition example_user :: "user option" where
  "example_user = Some \<lparr>user_id = ''ada'', nickname = ''Ada'', email = ''ada@example.org''\<rparr>"

definition example_profile :: "string list \<Rightarrow> string list \<Rightarrow> Profile" where
  "example_profile cs ws =
     \<lparr>displayName = ''Ada'', mainEmail = ''ada@example.org'', teeShirtSize = ''NOT_SPECIFIED'',
      conferenceKeysToAttend = cs, sessionsKeysWishlist = ws\<rparr>"

definition example_datastore :: "int \<Rightarrow> string list \<Rightarrow> datastore" where
  "example_datastore seats ws =
     \<lparr>profiles = [''ada'' \<mapsto> example_profile [] ws],
      conferences = [''conf'' \<mapsto> \<lparr>maxAttendees = 1, seatsAvailable = seats\<rparr>],
      sessions = {''talk''}\<rparr>"

text \<open>A store with two messages, for examples.\<close>

definition example_store :: "ref \<Rightarrow> string filt list \<Rightarrow> store" where
  "example_store r ds =
     \<lparr>messages = (\<lambda>x. if x = r then \<lparr>field = ''CITY'', operator = ''GT'', value' = ''A''\<rparr>
                          else \<lparr>field = ''TOPIC'', operator = ''EQ'', value' = ''Web''\<rparr>),
      dicts = ds\<rparr>"

section \<open>Properties\<close>

subsection \<open>Evaluation on the example input\<close>

lemma py_int_6: "py_int ''6'' = Some 6"
  by (simp add: py_int_def strip_def is_space_def parse_digits_def is_digit_def)

lemma py_int_10: "py_int ''10'' = Some 10"
  by (simp add: py_int_def strip_def is_space_def parse_digits_def is_digit_def)

lemma format_filters_example:
  "format_filters example_filters =
     Inr (Some ''maxAttendees'',
          [\<lparr>field = ''month'', operator = ''='', value' = ''6''\<rparr>,
           \<lparr>field = ''maxAttendees'', operator = ''>'', value' = ''10''\<rparr>])"
  by (simp add: format_filters_def example_filters_def FIELDS_def OPERATORS_def)

subsection \<open>The scan of the filters\<close>

lemma two_inequality_fields_Cons:
  "two_inequality_fields (f # fs) =
     ((inequality f \<and> clash (Some (mapped_field f)) fs) \<or> two_inequality_fields fs)"
proof
  assume "two_inequality_fields (f # fs)"
  then obtain a b where ab: "a \<in> set (f # fs)" "b \<in> set (f # fs)"
      "inequality a" "inequality b" "mapped_field a \<noteq> mapped_field b"
    unfolding two_inequality_fields_def by blast
  show "(inequality f \<and> clash (Some (mapped_field f)) fs) \<or> two_inequality_fields fs"
  proof (cases "a = f")
    case True
    then have "b \<in> set fs" using ab by auto
    then have "clash (Some (mapped_field f)) fs"
      unfolding clash_def using ab True by auto
    then show ?thesis using ab True by simp
  next
    case False
    then have a: "a \<in> set fs" using ab by simp
    show ?thesis
    proof (cases "b = f")
      case True
      then have "clash (Some (mapped_field f)) fs"
        unfolding clash_def using ab a by auto
      then show ?thesis using ab True by simp
    next
      case False
      then have "b \<in> set fs" using ab by simp
      then have "two_inequality_fields fs"
        unfolding two_inequality_fields_def using a ab by blast
      then show ?thesis by simp
    qed
  qed
next
  assume r: "(inequality f \<and> clash (Some (mapped_field f)) fs) \<or> two_inequality_fields fs"
  show "two_inequality_fields (f # fs)"
  proof (cases "two_inequality_fields fs")
    case True
    then obtain a b where "a \<in> set fs" "b \<in> set fs"
      "inequality a" "inequality b" "mapped_field a \<noteq> mapped_field b"
      unfolding two_inequality_fields_def by blast
    then have "a \<in> set (f # fs)" "b \<in> set (f # fs)"
      "inequality a" "inequality b" "mapped_field a \<noteq> mapped_field b" by simp_all
    then show ?thesis unfolding two_inequality_fields_def by blast
  next
    case False
    then have "inequality f" and "clash (Some (mapped_field f)) fs" using r by simp_all
    then obtain b where "b \<in> set fs" "inequality b" "mapped_field f \<noteq> mapped_field b"
      unfolding clash_def by auto
    then have "f \<in> set (f # fs)" "b \<in> set (f # fs)" "inequality f" "inequality b"
      "mapped_field f \<noteq> mapped_field b" using \<open>inequality f\<close> by simp_all
    then show ?thesis unfolding two_inequality_fields_def by blast
  qed
qed

lemma clash_Cons:
  "clash cur (f # fs) =
     ((inequality f \<and> cur \<noteq> None \<and> cur \<noteq> Some (mapped_field f)) \<or> clash cur fs)"
  by (simp add: clash_def)

lemma clash_None: "clash None fs = False"
  by (simp add: clash_def)


lemma FIELDS_nonempty: "FIELDS t = Some g \<Longrightarrow> g \<noteq> []"
  by (auto simp: FIELDS_def split: if_splits)

lemma truthy_mapped_field: "valid_tokens f \<Longrightarrow> truthy (Some (mapped_field f))"
  using FIELDS_nonempty by (auto simp: valid_tokens_def mapped_field_def)

lemma loop_step:
  assumes "valid_tokens f"
  shows "format_filters_loop cur acc (f # fs) =
     (if inequality f then
        (if truthy cur \<and> cur \<noteq> Some (mapped_field f) then Inl MultipleInequalityFieldsError
         else format_filters_loop (Some (mapped_field f)) (acc @ [format_one f]) fs)
      else format_filters_loop cur (acc @ [format_one f]) fs)"
  using assms
  by (auto simp: valid_tokens_def mapped_field_def mapped_operator_def format_one_def
        inequality_def MultipleInequalityFieldsError_def Let_def)

lemma designated_Nil: "designated cur [] = cur"
  by (cases cur) (simp_all add: designated_def first_inequality_field_def)

lemma designated_Cons:
  "designated cur (f # fs) =
     (if cur = None \<and> inequality f then Some (mapped_field f) else designated cur fs)"
  by (cases cur) (simp_all add: designated_def first_inequality_field_def)

lemma designated_Some: "designated (Some g) fs = Some g"
  by (simp add: designated_def)

lemma loop_prefix:
  assumes "\<forall>f \<in> set pre. valid_tokens f" and "cur = None \<or> truthy cur"
  shows "format_filters_loop cur acc (pre @ rest) =
     (if clash cur pre \<or> two_inequality_fields pre then Inl MultipleInequalityFieldsError
      else format_filters_loop (designated cur pre) (acc @ map format_one pre) rest)"
  using assms
proof (induction pre arbitrary: cur acc)
  case Nil
  show ?case
    by (simp add: clash_def two_inequality_fields_def designated_Nil)
next
  case (Cons f fs)
  have v: "valid_tokens f" and vs: "\<forall>f \<in> set fs. valid_tokens f"
    using Cons.prems by simp_all
  have step: "format_filters_loop cur acc ((f # fs) @ rest) =
     (if inequality f then
        (if truthy cur \<and> cur \<noteq> Some (mapped_field f) then Inl MultipleInequalityFieldsError
         else format_filters_loop (Some (mapped_field f)) (acc @ [format_one f]) (fs @ rest))
      else format_filters_loop cur (acc @ [format_one f]) (fs @ rest))"
    using loop_step[OF v, of cur acc "fs @ rest"] by simp
  show ?case
  proof (cases "inequality f")
    case False
    have IH: "format_filters_loop cur (acc @ [format_one f]) (fs @ rest) =
       (if clash cur fs \<or> two_inequality_fields fs then Inl MultipleInequalityFieldsError
        else format_filters_loop (designated cur fs) (acc @ format_one f # map format_one fs) rest)"
      using Cons.IH[OF vs Cons.prems(2), of "acc @ [format_one f]"] by simp
    show ?thesis
      unfolding step IH using False
      by (simp add: clash_Cons two_inequality_fields_Cons designated_Cons)
  next
    case True
    show ?thesis
    proof (cases "truthy cur \<and> cur \<noteq> Some (mapped_field f)")
      case True
      then have "cur \<noteq> None" by (cases cur) simp_all
      then have "clash cur (f # fs)"
        using True \<open>inequality f\<close> by (simp add: clash_Cons)
      then show ?thesis
        unfolding step using True \<open>inequality f\<close> by simp
    next
      case False
      then have cur: "cur = None \<or> cur = Some (mapped_field f)"
        using Cons.prems(2) by auto
      have IH: "format_filters_loop (Some (mapped_field f)) (acc @ [format_one f]) (fs @ rest) =
         (if clash (Some (mapped_field f)) fs \<or> two_inequality_fields fs
          then Inl MultipleInequalityFieldsError
          else format_filters_loop (Some (mapped_field f))
                 (acc @ format_one f # map format_one fs) rest)"
        using Cons.IH[OF vs, of "Some (mapped_field f)" "acc @ [format_one f]"]
          truthy_mapped_field[OF v]
        by (simp add: designated_Some)
      have a: "(clash cur (f # fs) \<or> two_inequality_fields (f # fs)) =
               (clash (Some (mapped_field f)) fs \<or> two_inequality_fields fs)"
        using cur \<open>inequality f\<close>
        by (auto simp: clash_Cons clash_None two_inequality_fields_Cons)
      have c: "designated cur (f # fs) = Some (mapped_field f)"
        using cur \<open>inequality f\<close> by (auto simp: designated_Cons designated_Some)
      have F: "(truthy cur \<and> cur \<noteq> Some (mapped_field f)) = False"
        using False by simp
      show ?thesis
        unfolding step IH a c F using \<open>inequality f\<close> by simp
    qed
  qed
qed

lemma format_filters_valid:
  assumes "\<forall>f \<in> set fs. valid_tokens f"
  shows "format_filters fs =
     (if two_inequality_fields fs then Inl MultipleInequalityFieldsError
      else Inr (first_inequality_field fs, map format_one fs))"
  using loop_prefix[OF assms, of None "[]" "[]"]
  by (simp add: format_filters_def clash_None designated_def)

lemma loop_invalid:
  "\<not> valid_tokens f \<Longrightarrow> format_filters_loop cur acc (f # fs) = Inl InvalidFilterError"
  by (auto simp: valid_tokens_def InvalidFilterError_def split: option.splits)

lemma apply_filters_eq:
  "apply_filters q fs =
     (if list_all numeric_ok fs
      then Inr (q\<lparr>filter_nodes := filter_nodes q @ map filter_node fs\<rparr>)
      else Inl ValueError)"
proof (induction fs arbitrary: q)
  case Nil
  show ?case by simp
next
  case (Cons f fs)
  show ?case
    by (cases "py_int (value' f)")
       (simp_all add: Cons.IH numeric_ok_def filter_node_def node_value_def query_filter_def)
qed

lemma truthy_first_inequality_field:
  assumes "\<forall>f \<in> set fs. valid_tokens f"
  shows "truthy (first_inequality_field fs) = (first_inequality_field fs \<noteq> None)"
proof (cases "find inequality fs")
  case None
  then show ?thesis by (simp add: first_inequality_field_def)
next
  case (Some f)
  then have "f \<in> set fs" by (auto simp: find_Some_iff)
  then have "truthy (Some (mapped_field f))"
    using assms truthy_mapped_field by simp
  then show ?thesis using Some by (simp add: first_inequality_field_def)
qed

lemma get_query_valid:
  assumes "\<forall>f \<in> set fs. valid_tokens f" and "\<not> two_inequality_fields fs"
  shows "get_query fs =
     (if list_all numeric_ok (map format_one fs)
      then Inr \<lparr>orders = sort_keys (first_inequality_field fs),
               filter_nodes = map filter_node (map format_one fs)\<rparr>
      else Inl ValueError)"
proof -
  have ff: "format_filters fs = Inr (first_inequality_field fs, map format_one fs)"
    using format_filters_valid[OF assms(1)] assms(2) by simp
  show ?thesis
  proof (cases "first_inequality_field fs")
    case None
    then show ?thesis
      by (simp add: get_query_def ff apply_filters_eq sort_keys_def
            Conference_query_def query_order_def)
  next
    case (Some g)
    then have "truthy (Some g)"
      using truthy_first_inequality_field[OF assms(1)] by simp
    then show ?thesis using Some
      by (simp add: get_query_def ff apply_filters_eq sort_keys_def
            Conference_query_def query_order_def)
  qed
qed

subsection \<open>Validation and the query\<close>

text \<open>
  Claim C1. When the field and operator tokens of all filters are valid, validation
  fails with MultipleInequalityFieldsError exactly when two filters, in whichever order,
  carry a non-equality operator on different mapped fields; otherwise it succeeds and the
  designated inequality field is the mapped field of the first filter whose operator is
  not "=", and none when there is no such filter.
\<close>

theorem format_filters_inequality:
  assumes "\<forall>f \<in> set fs. valid_tokens f"
  shows "format_filters fs =
     (if two_inequality_fields fs then Inl MultipleInequalityFieldsError
      else Inr (first_inequality_field fs, map format_one fs))"
  using format_filters_valid[OF assms] .

theorem format_filters_inequality_witness:
  "format_filters
     [\<lparr>field = ''CITY'', operator = ''GT'', value' = ''A''\<rparr>,
      \<lparr>field = ''TOPIC'', operator = ''LT'', value' = ''Z''\<rparr>]
     = Inl MultipleInequalityFieldsError
   \<and> format_filters
     [\<lparr>field = ''TOPIC'', operator = ''LT'', value' = ''Z''\<rparr>,
      \<lparr>field = ''CITY'', operator = ''GT'', value' = ''A''\<rparr>]
     = Inl MultipleInequalityFieldsError
   \<and> format_filters
     [\<lparr>field = ''CITY'', operator = ''EQ'', value' = ''Paris''\<rparr>,
      \<lparr>field = ''MONTH'', operator = ''GTEQ'', value' = ''6''\<rparr>,
      \<lparr>field = ''TOPIC'', operator = ''EQ'', value' = ''Web''\<rparr>]
     = Inr (Some ''month'',
            [\<lparr>field = ''city'', operator = ''='', value' = ''Paris''\<rparr>,
             \<lparr>field = ''month'', operator = ''>='', value' = ''6''\<rparr>,
             \<lparr>field = ''topics'', operator = ''='', value' = ''Web''\<rparr>])"
  using
    format_filters_inequality[of
      "[\<lparr>field = ''CITY'', operator = ''GT'', value' = ''A''\<rparr>,
        \<lparr>field = ''TOPIC'', operator = ''LT'', value' = ''Z''\<rparr>]"]
    format_filters_inequality[of
      "[\<lparr>field = ''TOPIC'', operator = ''LT'', value' = ''Z''\<rparr>,
        \<lparr>field = ''CITY'', operator = ''GT'', value' = ''A''\<rparr>]"]
    format_filters_inequality[of
      "[\<lparr>field = ''CITY'', operator = ''EQ'', value' = ''Paris''\<rparr>,
        \<lparr>field = ''MONTH'', operator = ''GTEQ'', value' = ''6''\<rparr>,
        \<lparr>field = ''TOPIC'', operator = ''EQ'', value' = ''Web''\<rparr>]"]
  by (simp add: valid_tokens_def two_inequality_fields_def first_inequality_field_def
        format_one_def inequality_def mapped_field_def mapped_operator_def
        FIELDS_def OPERATORS_def)


text \<open>
  Claim C8. When the tokens are valid and every filter with a non-equality operator is
  on the same mapped field \<open>g\<close>, validation succeeds, whatever the non-equality
  operators are, and \<open>g\<close> is the designated inequality field (given there is such a
  filter at all).
\<close>

theorem same_field_inequalities:
  assumes "\<forall>f \<in> set fs. valid_tokens f"
    and "\<forall>f \<in> set fs. inequality f \<longrightarrow> mapped_field f = g"
  shows "format_filters fs =
     Inr (if \<exists>f \<in> set fs. inequality f then Some g else None, map format_one fs)"
proof -
  have no: "\<not> two_inequality_fields fs"
    using assms(2) unfolding two_inequality_fields_def by auto
  have fi: "first_inequality_field fs = (if \<exists>f \<in> set fs. inequality f then Some g else None)"
  proof (cases "find inequality fs")
    case None
    then show ?thesis by (auto simp: first_inequality_field_def find_None_iff)
  next
    case (Some f)
    then have "f \<in> set fs" and "inequality f" by (auto simp: find_Some_iff)
    then show ?thesis using Some assms(2) by (auto simp: first_inequality_field_def)
  qed
  show ?thesis using format_filters_valid[OF assms(1)] no fi by simp
qed

theorem same_field_inequalities_witness:
  "format_filters
     [\<lparr>field = ''MAX_ATTENDEES'', operator = ''GT'', value' = ''10''\<rparr>,
      \<lparr>field = ''CITY'', operator = ''EQ'', value' = ''Paris''\<rparr>,
      \<lparr>field = ''MAX_ATTENDEES'', operator = ''LT'', value' = ''50''\<rparr>]
   = Inr (Some ''maxAttendees'',
          [\<lparr>field = ''maxAttendees'', operator = ''>'', value' = ''10''\<rparr>,
           \<lparr>field = ''city'', operator = ''='', value' = ''Paris''\<rparr>,
           \<lparr>field = ''maxAttendees'', operator = ''<'', value' = ''50''\<rparr>])"
  using same_field_inequalities[of
      "[\<lparr>field = ''MAX_ATTENDEES'', operator = ''GT'', value' = ''10''\<rparr>,
        \<lparr>field = ''CITY'', operator = ''EQ'', value' = ''Paris''\<rparr>,
        \<lparr>field = ''MAX_ATTENDEES'', operator = ''LT'', value' = ''50''\<rparr>]"
      "''maxAttendees''"]
  by (simp add: valid_tokens_def format_one_def inequality_def mapped_field_def
        mapped_operator_def FIELDS_def OPERATORS_def)

text \<open>
  Claim C6. When the tokens are valid and every operator token is EQ, validation
  succeeds, designates no inequality field and keeps the filters in input order, each
  with the operator "="; when moreover \<^verbatim>\<open>int\<close> accepts the value of every month and
  maxAttendees filter, the query sorts by name only and has one "=" predicate per
  filter, in input order.
\<close>

theorem equality_filters:
  assumes "\<forall>f \<in> set fs. valid_tokens f" and "\<forall>f \<in> set fs. operator f = ''EQ''"
  shows "format_filters fs =
       Inr (None, map (\<lambda>f. \<lparr>field = mapped_field f, operator = ''='', value' = value' f\<rparr>) fs)
     \<and> ((\<forall>f \<in> set fs. numeric_ok (format_one f)) \<longrightarrow>
        get_query fs =
          Inr \<lparr>orders = [''name''],
               filter_nodes =
                 map (\<lambda>f. FilterNode (mapped_field f) ''='' (node_value (format_one f))) fs\<rparr>)"
proof -
  have eq: "\<forall>f \<in> set fs. \<not> inequality f"
    using assms(2) by (simp add: inequality_def mapped_operator_def OPERATORS_def)
  then have no: "\<not> two_inequality_fields fs"
    unfolding two_inequality_fields_def by auto
  have fi: "first_inequality_field fs = None"
    using eq by (simp add: first_inequality_field_def find_None_iff)
  have one: "\<forall>f \<in> set fs.
      format_one f = \<lparr>field = mapped_field f, operator = ''='', value' = value' f\<rparr>"
    using assms(2) by (simp add: format_one_def mapped_operator_def OPERATORS_def)
  then have m: "map format_one fs =
      map (\<lambda>f. \<lparr>field = mapped_field f, operator = ''='', value' = value' f\<rparr>) fs"
    by simp
  have n: "map filter_node (map format_one fs) =
      map (\<lambda>f. FilterNode (mapped_field f) ''='' (node_value (format_one f))) fs"
    using one by (simp add: filter_node_def)
  have a: "format_filters fs = Inr (None, map format_one fs)"
    using format_filters_valid[OF assms(1)] no fi by simp
  have A: "format_filters fs =
       Inr (None, map (\<lambda>f. \<lparr>field = mapped_field f, operator = ''='', value' = value' f\<rparr>) fs)"
    using a unfolding m .
  have B: "get_query fs =
          Inr \<lparr>orders = [''name''],
               filter_nodes =
                 map (\<lambda>f. FilterNode (mapped_field f) ''='' (node_value (format_one f))) fs\<rparr>"
    if ok: "\<forall>f \<in> set fs. numeric_ok (format_one f)"
  proof -
    have "list_all numeric_ok (map format_one fs)"
      using ok by (simp add: list_all_iff)
    then have "get_query fs =
        Inr \<lparr>orders = [''name''], filter_nodes = map filter_node (map format_one fs)\<rparr>"
      using get_query_valid[OF assms(1) no] fi by (simp add: sort_keys_def)
    then show ?thesis unfolding n .
  qed
  show ?thesis using A B by blast
qed

theorem equality_filters_witness:
  "format_filters
     [\<lparr>field = ''TOPIC'', operator = ''EQ'', value' = ''Web''\<rparr>,
      \<lparr>field = ''MONTH'', operator = ''EQ'', value' = ''6''\<rparr>]
   = Inr (None,
          [\<lparr>field = ''topics'', operator = ''='', value' = ''Web''\<rparr>,
           \<lparr>field = ''month'', operator = ''='', value' = ''6''\<rparr>])
   \<and> get_query
     [\<lparr>field = ''TOPIC'', operator = ''EQ'', value' = ''Web''\<rparr>,
      \<lparr>field = ''MONTH'', operator = ''EQ'', value' = ''6''\<rparr>]
   = Inr \<lparr>orders = [''name''],
          filter_nodes = [FilterNode ''topics'' ''='' (PyStr ''Web''),
                          FilterNode ''month'' ''='' (PyInt 6)]\<rparr>"
  using equality_filters[of
      "[\<lparr>field = ''TOPIC'', operator = ''EQ'', value' = ''Web''\<rparr>,
        \<lparr>field = ''MONTH'', operator = ''EQ'', value' = ''6''\<rparr>]"]
  by (simp add: valid_tokens_def format_one_def mapped_field_def mapped_operator_def
        FIELDS_def OPERATORS_def numeric_ok_def node_value_def py_int_6)

text \<open>
  Claim C3. For a valid filter list (valid tokens, at most one inequality field, numeric
  values that \<^verbatim>\<open>int\<close> accepts) the sort keys of the query are the designated
  inequality field, when there is one, followed by the name, and the name alone
  otherwise; the predicates are the formatted filters, all of them, in input order.
\<close>

theorem get_query_plan:
  assumes "\<forall>f \<in> set fs. valid_tokens f" and "\<not> two_inequality_fields fs"
    and "\<forall>f \<in> set fs. numeric_ok (format_one f)"
  shows "get_query fs =
     Inr \<lparr>orders = (case first_inequality_field fs of
                       None \<Rightarrow> [''name''] | Some g \<Rightarrow> [g, ''name'']),
          filter_nodes = map (\<lambda>f. filter_node (format_one f)) fs\<rparr>"
  using get_query_valid[OF assms(1,2)] assms(3)
  by (simp add: list_all_iff sort_keys_def comp_def)

theorem get_query_plan_witness:
  "get_query
     [\<lparr>field = ''CITY'', operator = ''NE'', value' = ''Paris''\<rparr>,
      \<lparr>field = ''MAX_ATTENDEES'', operator = ''EQ'', value' = ''10''\<rparr>]
   = Inr \<lparr>orders = [''city'', ''name''],
          filter_nodes = [FilterNode ''city'' ''!='' (PyStr ''Paris''),
                          FilterNode ''maxAttendees'' ''='' (PyInt 10)]\<rparr>
   \<and> get_query [\<lparr>field = ''MONTH'', operator = ''EQ'', value' = ''6''\<rparr>]
   = Inr \<lparr>orders = [''name''],
          filter_nodes = [FilterNode ''month'' ''='' (PyInt 6)]\<rparr>"
  using
    get_query_plan[of
      "[\<lparr>field = ''CITY'', operator = ''NE'', value' = ''Paris''\<rparr>,
        \<lparr>field = ''MAX_ATTENDEES'', operator = ''EQ'', value' = ''10''\<rparr>]"]
    get_query_plan[of "[\<lparr>field = ''MONTH'', operator = ''EQ'', value' = ''6''\<rparr>]"]
  by (simp add: valid_tokens_def two_inequality_fields_def first_inequality_field_def
        format_one_def inequality_def mapped_field_def mapped_operator_def
        FIELDS_def OPERATORS_def numeric_ok_def filter_node_def node_value_def
        py_int_6 py_int_10)

text \<open>
  Claim C4 says that a filter with a token outside the tables always makes validation
  fail with InvalidFilterError. The scan stops at the first exception: when two filters
  before the one with the unknown token are on different inequality fields, validation
  fails with MultipleInequalityFieldsError.
\<close>

theorem invalid_token_counterexample:
  "\<not> valid_tokens \<lparr>field = ''SPEAKER'', operator = ''EQ'', value' = ''Ada''\<rparr>
   \<and> format_filters
       [\<lparr>field = ''CITY'', operator = ''GT'', value' = ''A''\<rparr>,
        \<lparr>field = ''TOPIC'', operator = ''LT'', value' = ''Z''\<rparr>,
        \<lparr>field = ''SPEAKER'', operator = ''EQ'', value' = ''Ada''\<rparr>]
     = Inl MultipleInequalityFieldsError
   \<and> MultipleInequalityFieldsError \<noteq> InvalidFilterError"
  by (simp add: valid_tokens_def format_filters_def FIELDS_def OPERATORS_def
        MultipleInequalityFieldsError_def InvalidFilterError_def)

text \<open>
  Claim C4, amended. The field and operator tokens are mapped through the two tables as
  enumerated, and a list with a filter whose field or operator token is outside them
  never validates: when the filters before the first such filter have valid tokens,
  validation fails with InvalidFilterError, unless two of those earlier filters carry
  non-equality operators on different fields, in which case it fails with
  MultipleInequalityFieldsError.
\<close>

theorem invalid_token_rejected:
  "FIELDS t =
     (if t = ''CITY'' then Some ''city''
      else if t = ''TOPIC'' then Some ''topics''
      else if t = ''MONTH'' then Some ''month''
      else if t = ''MAX_ATTENDEES'' then Some ''maxAttendees''
      else None)
   \<and> OPERATORS t =
     (if t = ''EQ'' then Some ''=''
      else if t = ''GT'' then Some ''>''
      else if t = ''GTEQ'' then Some ''>=''
      else if t = ''LT'' then Some ''<''
      else if t = ''LTEQ'' then Some ''<=''
      else if t = ''NE'' then Some ''!=''
      else None)
   \<and> ((\<forall>g \<in> set pre. valid_tokens g) \<and> \<not> valid_tokens f \<longrightarrow>
        format_filters (pre @ f # post) =
          Inl (if two_inequality_fields pre then MultipleInequalityFieldsError
               else InvalidFilterError))"
proof -
  have "format_filters (pre @ f # post) =
          Inl (if two_inequality_fields pre then MultipleInequalityFieldsError
               else InvalidFilterError)"
    if v: "\<forall>g \<in> set pre. valid_tokens g" and i: "\<not> valid_tokens f"
    using loop_prefix[OF v, of None "[]" "f # post"] loop_invalid[OF i]
    by (simp add: format_filters_def clash_None del: format_filters_loop.simps)
  then show ?thesis
    by (simp add: FIELDS_def OPERATORS_def)
qed

theorem invalid_token_rejected_witness:
  "format_filters
     [\<lparr>field = ''CITY'', operator = ''GT'', value' = ''A''\<rparr>,
      \<lparr>field = ''SPEAKER'', operator = ''EQ'', value' = ''Ada''\<rparr>,
      \<lparr>field = ''TOPIC'', operator = ''LT'', value' = ''Z''\<rparr>]
   = Inl InvalidFilterError
   \<and> format_filters
     [\<lparr>field = ''CITY'', operator = ''GT'', value' = ''A''\<rparr>,
      \<lparr>field = ''TOPIC'', operator = ''LT'', value' = ''Z''\<rparr>,
      \<lparr>field = ''CITY'', operator = ''BETWEEN'', value' = ''Ada''\<rparr>]
   = Inl MultipleInequalityFieldsError"
  using
    invalid_token_rejected[of _
      "[\<lparr>field = ''CITY'', operator = ''GT'', value' = ''A''\<rparr>]"
      "\<lparr>field = ''SPEAKER'', operator = ''EQ'', value' = ''Ada''\<rparr>"
      "[\<lparr>field = ''TOPIC'', operator = ''LT'', value' = ''Z''\<rparr>]"]
    invalid_token_rejected[of _
      "[\<lparr>field = ''CITY'', operator = ''GT'', value' = ''A''\<rparr>,
        \<lparr>field = ''TOPIC'', operator = ''LT'', value' = ''Z''\<rparr>]"
      "\<lparr>field = ''CITY'', operator = ''BETWEEN'', value' = ''Ada''\<rparr>"
      "[]"]
  by (simp add: valid_tokens_def two_inequality_fields_def inequality_def mapped_field_def
        mapped_operator_def FIELDS_def OPERATORS_def)

text \<open>
  Claim C2. The value of a month or maxAttendees filter goes through \<^verbatim>\<open>int\<close>. The
  filter MONTH EQ "June" passes \<^verbatim>\<open>_format_filters\<close>, and the \<^verbatim>\<open>ValueError\<close> of
  \<^verbatim>\<open>int\<close> then leaves \<^verbatim>\<open>_get_query\<close> as it is, where the claim expects
  InvalidFilterError.
\<close>

theorem non_numeric_value:
  "format_filters [\<lparr>field = ''MONTH'', operator = ''EQ'', value' = ''June''\<rparr>] =
     Inr (None, [\<lparr>field = ''month'', operator = ''='', value' = ''June''\<rparr>])
   \<and> get_query [\<lparr>field = ''MONTH'', operator = ''EQ'', value' = ''June''\<rparr>] = Inl ValueError
   \<and> Inl ValueError \<noteq> (Inl InvalidFilterError :: error + query)"
  by (simp add: get_query_def format_filters_def FIELDS_def OPERATORS_def
        Conference_query_def query_order_def py_int_def strip_def is_space_def
        parse_digits_def is_digit_def InvalidFilterError_def)

subsection \<open>Registration and the wishlist\<close>

lemma get_profile_from_user_cases:
  assumes "get_profile_from_user ds u = Inr (pk, profile, ds1)"
  shows "(profiles ds pk = Some profile \<and> ds1 = ds)
       \<or> (profiles ds pk = None \<and> ds1 = put_profile pk profile ds
          \<and> conferenceKeysToAttend profile = [] \<and> sessionsKeysWishlist profile = [])"
  using assms
  by (auto simp: get_profile_from_user_def Let_def split: option.splits)

lemma get_profile_from_user_stored:
  assumes "get_profile_from_user ds u = Inr (pk, profile, ds1)"
  shows "profiles ds1 pk = Some profile" and "conferences ds1 = conferences ds"
    and "sessions ds1 = sessions ds"
  using get_profile_from_user_cases[OF assms]
  by (auto simp: put_profile_def)

lemma get_profile_from_user_seats:
  "get_profile_from_user ds u = Inr (pk, profile, ds1) \<Longrightarrow> seats_nonneg ds1 = seats_nonneg ds"
  using get_profile_from_user_stored(2)[of ds u pk profile ds1]
  by (simp add: seats_nonneg_def)

lemma get_profile_from_user_distinct:
  assumes "get_profile_from_user ds u = Inr (pk, profile, ds1)" and "wishlists_distinct ds"
  shows "wishlists_distinct ds1" and "distinct (sessionsKeysWishlist profile)"
  using get_profile_from_user_cases[OF assms(1)] assms(2)
  by (auto simp: wishlists_distinct_def put_profile_def split: if_splits)

lemma seats_nonneg_put_conference:
  "seats_nonneg ds \<Longrightarrow> 0 \<le> seatsAvailable c \<Longrightarrow> seats_nonneg (put_conference k c ds)"
  by (simp add: seats_nonneg_def put_conference_def)

lemma seats_nonneg_put_profile: "seats_nonneg (put_profile k p ds) = seats_nonneg ds"
  by (simp add: seats_nonneg_def put_profile_def)

lemma wishlists_distinct_put_profile:
  "wishlists_distinct ds \<Longrightarrow> distinct (sessionsKeysWishlist p)
     \<Longrightarrow> wishlists_distinct (put_profile k p ds)"
  by (simp add: wishlists_distinct_def put_profile_def)

lemma registration_keeps_seats_nonneg:
  assumes "seats_nonneg ds"
  shows "seats_nonneg (snd (conference_registration ds u wsck reg))"
proof (cases "conference_registration_body u wsck reg ds")
  case (Inl e)
  then show ?thesis using assms by (simp add: conference_registration_def transactional_def)
next
  case (Inr r)
  obtain b ds' where r: "r = (b, ds')" by (cases r)
  have body: "conference_registration_body u wsck reg ds = Inr (b, ds')" using Inr r by simp
  then obtain pk profile ds1 where g: "get_profile_from_user ds u = Inr (pk, profile, ds1)"
    by (auto simp: conference_registration_body_def split: sum.splits)
  then obtain c where c: "conferences ds1 wsck = Some c"
    using body by (auto simp: conference_registration_body_def split: option.splits)
  have s1: "seats_nonneg ds1" using get_profile_from_user_seats[OF g] assms by simp
  then have c0: "0 \<le> seatsAvailable c" using c by (auto simp: seats_nonneg_def)
  have "seats_nonneg ds'"
    using body g c s1 c0
    by (auto simp: conference_registration_body_def seats_nonneg_put_profile
          intro!: seats_nonneg_put_conference split: if_splits)
  then show ?thesis using body by (simp add: conference_registration_def transactional_def)
qed

text \<open>
  Claim C9. For an authorised user and a conference that exists, registering raises
  ConflictException and leaves the datastore as it was when the user is already
  registered or no seat is available; otherwise it takes exactly one seat and appends
  the conference key to the profile. Unregistering gives one seat back when the user was
  registered and changes no seat count otherwise. So a call, whatever its outcome, keeps
  every seat counter of the datastore non-negative.
\<close>

theorem conference_registration_seats:
  "(get_profile_from_user ds u = Inr (pk, profile, ds1)
      \<and> conferences ds wsck = Some conference \<longrightarrow>
     (wsck \<in> set (conferenceKeysToAttend profile) \<or> seatsAvailable conference \<le> 0 \<longrightarrow>
        (\<exists>msg. conference_registration ds u wsck True = (Inl (ConflictException msg), ds)))
     \<and> (wsck \<notin> set (conferenceKeysToAttend profile) \<and> 0 < seatsAvailable conference \<longrightarrow>
        (\<exists>ds'. conference_registration ds u wsck True = (Inr True, ds')
          \<and> conferences ds' wsck =
              Some (conference\<lparr>seatsAvailable := seatsAvailable conference - 1\<rparr>)
          \<and> profiles ds' pk =
              Some (profile\<lparr>conferenceKeysToAttend :=
                              conferenceKeysToAttend profile @ [wsck]\<rparr>)))
     \<and> (\<exists>ds'. conference_registration ds u wsck False =
                 (Inr (wsck \<in> set (conferenceKeysToAttend profile)), ds')
          \<and> conferences ds' wsck =
              Some (conference\<lparr>seatsAvailable :=
                      (if wsck \<in> set (conferenceKeysToAttend profile)
                       then seatsAvailable conference + 1 else seatsAvailable conference)\<rparr>)
          \<and> profiles ds' pk =
              Some (profile\<lparr>conferenceKeysToAttend :=
                              remove1 wsck (conferenceKeysToAttend profile)\<rparr>)))
   \<and> (seats_nonneg ds \<longrightarrow> seats_nonneg (snd (conference_registration ds u wsck reg)))"
proof -
  have beh: ?thesis if g: "get_profile_from_user ds u = Inr (pk, profile, ds1)"
      and c: "conferences ds wsck = Some conference"
  proof -
    have c1: "conferences ds1 wsck = Some conference"
      using get_profile_from_user_stored(2)[OF g] c by simp
    show ?thesis
      using g c c1 registration_keeps_seats_nonneg[of ds u wsck reg]
      by (auto simp: conference_registration_def transactional_def
            conference_registration_body_def put_conference_def put_profile_def
            remove1_idem)
  qed
  show ?thesis
    using beh registration_keeps_seats_nonneg[of ds u wsck reg] by blast
qed


lemma example_get_profile:
  "get_profile_from_user (example_datastore seats ws) example_user =
     Inr (''ada'', example_profile [] ws, example_datastore seats ws)"
  by (simp add: get_profile_from_user_def example_user_def example_datastore_def Let_def)

lemma example_conference:
  "conferences (example_datastore seats ws) ''conf'' = Some \<lparr>maxAttendees = 1, seatsAvailable = seats\<rparr>"
  by (simp add: example_datastore_def)

lemma example_seats_nonneg: "seats_nonneg (example_datastore seats ws) = (0 \<le> seats)"
  by (auto simp: seats_nonneg_def example_datastore_def split: if_splits)

theorem conference_registration_seats_witness:
  "seats_nonneg (example_datastore 1 [])
   \<and> fst (conference_registration (example_datastore 1 []) example_user ''conf'' True) = Inr True
   \<and> conferences (snd (conference_registration (example_datastore 1 []) example_user ''conf'' True))
        ''conf'' = Some \<lparr>maxAttendees = 1, seatsAvailable = 0\<rparr>
   \<and> seats_nonneg (snd (conference_registration (example_datastore 1 []) example_user ''conf'' True))
   \<and> conference_registration (example_datastore 0 []) example_user ''conf'' True =
        (Inl (ConflictException ''There are no seats available.''), example_datastore 0 [])
   \<and> conferences (snd (conference_registration (example_datastore 0 []) example_user ''conf'' False))
        ''conf'' = Some \<lparr>maxAttendees = 1, seatsAvailable = 0\<rparr>"
proof -
  note a = conference_registration_seats[of "example_datastore 1 []" example_user
      "''ada''" "example_profile [] []" "example_datastore 1 []" "''conf''"
      "\<lparr>maxAttendees = 1, seatsAvailable = 1\<rparr>" True]
  note b = conference_registration_seats[of "example_datastore 0 []" example_user
      "''ada''" "example_profile [] []" "example_datastore 0 []" "''conf''"
      "\<lparr>maxAttendees = 1, seatsAvailable = 0\<rparr>" True]
  have n: "conferenceKeysToAttend (example_profile [] []) = []"
    by (simp add: example_profile_def)
  have c: "conference_registration (example_datastore 0 []) example_user ''conf'' True =
        (Inl (ConflictException ''There are no seats available.''), example_datastore 0 [])"
    by (simp add: conference_registration_def transactional_def
          conference_registration_body_def example_get_profile example_conference n)
  show ?thesis
    using a b c
    by (auto simp: example_get_profile example_conference example_seats_nonneg n)
qed


lemma get_profile_from_user_unchanged:
  assumes "get_profile_from_user ds u = Inr (pk, profile, ds1)"
    and "k \<in> set (sessionsKeysWishlist profile)"
  shows "ds1 = ds"
  using get_profile_from_user_cases[OF assms(1)] assms(2) by auto

lemma add_keeps_wishlists_distinct:
  assumes "wishlists_distinct ds"
  shows "wishlists_distinct (snd (add_session_to_wishlist ds u k))"
proof (cases "get_profile_from_user ds u")
  case (Inl e)
  then show ?thesis using assms by (simp add: add_session_to_wishlist_def)
next
  case (Inr r)
  obtain pk profile ds1 where r: "r = (pk, profile, ds1)" by (cases r)
  have g: "get_profile_from_user ds u = Inr (pk, profile, ds1)" using Inr r by simp
  note d = get_profile_from_user_distinct[OF g assms]
  show ?thesis
    using d by (simp add: add_session_to_wishlist_def g wishlists_distinct_put_profile)
qed

lemma delete_keeps_wishlists_distinct:
  assumes "wishlists_distinct ds"
  shows "wishlists_distinct (snd (delete_session_in_wishlist ds u k))"
proof (cases "get_profile_from_user ds u")
  case (Inl e)
  then show ?thesis using assms by (simp add: delete_session_in_wishlist_def)
next
  case (Inr r)
  obtain pk profile ds1 where r: "r = (pk, profile, ds1)" by (cases r)
  have g: "get_profile_from_user ds u = Inr (pk, profile, ds1)" using Inr r by simp
  note d = get_profile_from_user_distinct[OF g assms]
  show ?thesis
    using d by (simp add: delete_session_in_wishlist_def g wishlists_distinct_put_profile)
qed

text \<open>
  Claim C10. For an authorised user and a session that exists, adding a session that is
  in the wishlist raises ConflictException and leaves the datastore as it was, and adding
  one that is not appends it; deleting a session that is not in the wishlist returns
  False with the profile as it is stored, and deleting one that is returns True and
  removes one occurrence. So both operations, whatever their outcome, keep every stored
  wishlist free of duplicates.
\<close>

theorem wishlist_no_duplicates:
  "(get_profile_from_user ds u = Inr (pk, profile, ds1) \<and> k \<in> sessions ds \<longrightarrow>
     (k \<in> set (sessionsKeysWishlist profile) \<longrightarrow>
        add_session_to_wishlist ds u k =
          (Inl (ConflictException ''You already have this session in your wishlist.''), ds)
        \<and> (\<exists>ds'. delete_session_in_wishlist ds u k = (Inr True, ds')
              \<and> profiles ds' pk =
                  Some (profile\<lparr>sessionsKeysWishlist :=
                                  remove1 k (sessionsKeysWishlist profile)\<rparr>)))
     \<and> (k \<notin> set (sessionsKeysWishlist profile) \<longrightarrow>
        (\<exists>ds'. add_session_to_wishlist ds u k = (Inr True, ds')
              \<and> profiles ds' pk =
                  Some (profile\<lparr>sessionsKeysWishlist :=
                                  sessionsKeysWishlist profile @ [k]\<rparr>))
        \<and> delete_session_in_wishlist ds u k = (Inr False, ds1)
        \<and> profiles ds1 pk = Some profile
        \<and> (profiles ds pk \<noteq> None \<longrightarrow> ds1 = ds)))
   \<and> (wishlists_distinct ds \<longrightarrow>
        wishlists_distinct (snd (add_session_to_wishlist ds u k))
        \<and> wishlists_distinct (snd (delete_session_in_wishlist ds u k)))"
proof -
  have inv: "wishlists_distinct ds \<longrightarrow>
        wishlists_distinct (snd (add_session_to_wishlist ds u k))
        \<and> wishlists_distinct (snd (delete_session_in_wishlist ds u k))"
    using add_keeps_wishlists_distinct delete_keeps_wishlists_distinct by simp
  have beh: ?thesis if g: "get_profile_from_user ds u = Inr (pk, profile, ds1)"
      and s: "k \<in> sessions ds"
  proof -
    have s1: "entity_exists ds1 k"
      using get_profile_from_user_stored(3)[OF g] s by (simp add: entity_exists_def)
    have st: "profiles ds1 pk = Some profile" by (rule get_profile_from_user_stored(1)[OF g])
    have un: "ds1 = ds" if "k \<in> set (sessionsKeysWishlist profile)"
      using get_profile_from_user_unchanged[OF g that] .
    have ex: "ds1 = ds" if "profiles ds pk \<noteq> None"
      using get_profile_from_user_cases[OF g] that by auto
    show ?thesis
      using inv s1 st un ex
      by (auto simp: add_session_to_wishlist_def delete_session_in_wishlist_def g
            put_profile_def)
  qed
  show ?thesis using beh inv by blast
qed

theorem wishlist_no_duplicates_witness:
  "wishlists_distinct (example_datastore 1 [''talk''])
   \<and> add_session_to_wishlist (example_datastore 1 [''talk'']) example_user ''talk'' =
       (Inl (ConflictException ''You already have this session in your wishlist.''),
        example_datastore 1 [''talk''])
   \<and> profiles (snd (delete_session_in_wishlist (example_datastore 1 [''talk''])
                      example_user ''talk'')) ''ada''
       = Some (example_profile [] [])
   \<and> profiles (snd (add_session_to_wishlist (example_datastore 1 []) example_user ''talk''))
        ''ada''
       = Some (example_profile [] [''talk''])
   \<and> delete_session_in_wishlist (example_datastore 1 []) example_user ''talk'' =
       (Inr False, example_datastore 1 [])
   \<and> wishlists_distinct
       (snd (add_session_to_wishlist (example_datastore 1 [''talk'']) example_user ''talk''))"
proof -
  note a = wishlist_no_duplicates[of "example_datastore 1 [''talk'']" example_user
      "''ada''" "example_profile [] [''talk'']" "example_datastore 1 [''talk'']" "''talk''"]
  note b = wishlist_no_duplicates[of "example_datastore 1 []" example_user
      "''ada''" "example_profile [] []" "example_datastore 1 []" "''talk''"]
  have s: "''talk'' \<in> sessions (example_datastore 1 ws)" for ws
    by (simp add: example_datastore_def)
  have d: "wishlists_distinct (example_datastore 1 [''talk''])"
    by (auto simp: wishlists_distinct_def example_datastore_def example_profile_def
          split: if_splits)
  show ?thesis
    using a b s d
    by (auto simp: example_get_profile example_profile_def)
qed

subsection \<open>Validation writes only what it creates\<close>

lemma store_step:
  "format_filters_store_loop cur acc h (f # fs) =
     (case FIELDS (field (messages h f)) of
        None \<Rightarrow> (Inl (BadRequestException ''Filter contains invalid field or operator.''),
                 h\<lparr>dicts := dicts h @ [messages h f]\<rparr>)
      | Some fld \<Rightarrow>
         (case OPERATORS (operator (messages h f)) of
            None \<Rightarrow> (Inl (BadRequestException ''Filter contains invalid field or operator.''),
                     h\<lparr>dicts := dicts h @ [(messages h f)\<lparr>field := fld\<rparr>]\<rparr>)
          | Some opr \<Rightarrow>
             if opr \<noteq> ''='' \<and> truthy cur \<and> cur \<noteq> Some fld
             then (Inl (BadRequestException ''Inequality filter is allowed on only one field.''),
                   h\<lparr>dicts := dicts h @ [(messages h f)\<lparr>field := fld, operator := opr\<rparr>]\<rparr>)
             else format_filters_store_loop (if opr \<noteq> ''='' then Some fld else cur)
                    (acc @ [length (dicts h)])
                    (h\<lparr>dicts := dicts h @ [(messages h f)\<lparr>field := fld, operator := opr\<rparr>]\<rparr>)
                    fs))"
  by (simp add: new_dict_def dict_get_def set_field_def set_operator_def Let_def
        split: option.splits)

lemma pure_step:
  "format_filters_loop cur acc (m # ms) =
     (case FIELDS (field m) of
        None \<Rightarrow> Inl (BadRequestException ''Filter contains invalid field or operator.'')
      | Some fld \<Rightarrow>
         (case OPERATORS (operator m) of
            None \<Rightarrow> Inl (BadRequestException ''Filter contains invalid field or operator.'')
          | Some opr \<Rightarrow>
             if opr \<noteq> ''='' \<and> truthy cur \<and> cur \<noteq> Some fld
             then Inl (BadRequestException ''Inequality filter is allowed on only one field.'')
             else format_filters_loop (if opr \<noteq> ''='' then Some fld else cur)
                    (acc @ [m\<lparr>field := fld, operator := opr\<rparr>]) ms))"
  by (simp add: Let_def split: option.splits)

lemma store_loop_frame:
  "messages (snd (format_filters_store_loop cur acc h fs)) = messages h
   \<and> (\<exists>new. dicts (snd (format_filters_store_loop cur acc h fs)) = dicts h @ new)"
proof (induction fs arbitrary: cur acc h)
  case Nil
  show ?case by simp
next
  case (Cons f fs)
  have IH: "messages (snd (format_filters_store_loop c a (h\<lparr>dicts := dicts h @ [d]\<rparr>) fs))
              = messages h
     \<and> (\<exists>new. dicts (snd (format_filters_store_loop c a (h\<lparr>dicts := dicts h @ [d]\<rparr>) fs))
              = dicts h @ new)" for c a d
    using Cons.IH[of c a "h\<lparr>dicts := dicts h @ [d]\<rparr>"] by auto
  show ?case
    unfolding store_step
    by (simp add: IH split: option.splits)
qed

lemma store_loop_refines:
  assumes "\<forall>r \<in> set acc. r < length (dicts h)"
  shows "read_result (format_filters_store_loop cur acc h fs) =
         format_filters_loop cur (map (dict_get h) acc) (map (messages h) fs)"
  using assms
proof (induction fs arbitrary: cur acc h)
  case Nil
  show ?case by simp
next
  case (Cons f fs)
  have old: "map (dict_get (h\<lparr>dicts := dicts h @ [d]\<rparr>)) acc = map (dict_get h) acc" for d
    using Cons.prems by (simp add: dict_get_def nth_append)
  have new: "dict_get (h\<lparr>dicts := dicts h @ [d]\<rparr>) (length (dicts h)) = d" for d
    by (simp add: dict_get_def)
  have rng: "\<forall>r \<in> set (acc @ [length (dicts h)]). r < length (dicts (h\<lparr>dicts := dicts h @ [d]\<rparr>))"
    for d using Cons.prems by (auto simp: less_Suc_eq)
  show ?case
    unfolding store_step list.map pure_step
    by (simp add: Cons.IH[OF rng] old new del: format_filters_loop.simps
          format_filters_store_loop.simps split: option.splits)
qed


text \<open>
  Claim C7. Validation is a pure transformation: it changes no message and no
  dictionary that existed before the call (every dictionary it writes is one it created),
  and what it returns, the exception or the designated field with the contents of the
  returned dictionaries, is the function \<open>format_filters\<close> of the contents of the
  filters alone. So two runs on filter lists of equal contents, in whatever stores, give
  equal results.
\<close>

theorem format_filters_pure:
  "messages (snd (format_filters_store h fs)) = messages h
   \<and> take (length (dicts h)) (dicts (snd (format_filters_store h fs))) = dicts h
   \<and> read_result (format_filters_store h fs) = format_filters (map (messages h) fs)
   \<and> (map (messages h) fs = map (messages h') fs' \<longrightarrow>
        read_result (format_filters_store h fs) = read_result (format_filters_store h' fs'))"
proof -
  have r: "read_result (format_filters_store g rs) = format_filters (map (messages g) rs)"
    for g rs
    using store_loop_refines[of "[]" g None rs]
    by (simp add: format_filters_store_def format_filters_def)
  obtain new where n: "dicts (snd (format_filters_store h fs)) = dicts h @ new"
    using store_loop_frame[of None "[]" h fs] by (auto simp: format_filters_store_def)
  have m: "messages (snd (format_filters_store h fs)) = messages h"
    using store_loop_frame[of None "[]" h fs] by (simp add: format_filters_store_def)
  show ?thesis
    using m n by (simp add: r)
qed

theorem format_filters_pure_witness:
  "read_result (format_filters_store (example_store 0 []) [0, 1]) =
     read_result (format_filters_store
        (example_store 5 [\<lparr>field = ''month'', operator = ''='', value' = ''6''\<rparr>]) [5, 7])
   \<and> read_result (format_filters_store (example_store 0 []) [0, 1]) =
     Inr (Some ''city'',
          [\<lparr>field = ''city'', operator = ''>'', value' = ''A''\<rparr>,
           \<lparr>field = ''topics'', operator = ''='', value' = ''Web''\<rparr>])"
proof -
  note t = format_filters_pure[of "example_store 0 []" "[0, 1]"
      "example_store 5 [\<lparr>field = ''month'', operator = ''='', value' = ''6''\<rparr>]" "[5, 7]"]
  have e: "map (messages (example_store 0 [])) [0, 1] =
           map (messages (example_store 5
                  [\<lparr>field = ''month'', operator = ''='', value' = ''6''\<rparr>])) [5, 7]"
    by (simp add: example_store_def)
  have a: "read_result (format_filters_store (example_store 0 []) [0, 1]) =
     read_result (format_filters_store
        (example_store 5 [\<lparr>field = ''month'', operator = ''='', value' = ''6''\<rparr>]) [5, 7])"
    using t e by blast
  have "read_result (format_filters_store (example_store 0 []) [0, 1]) =
        format_filters (map (messages (example_store 0 [])) [0, 1])"
    using t by blast
  then have b: "read_result (format_filters_store (example_store 0 []) [0, 1]) =
     Inr (Some ''city'',
          [\<lparr>field = ''city'', operator = ''>'', value' = ''A''\<rparr>,
           \<lparr>field = ''topics'', operator = ''='', value' = ''Web''\<rparr>])"
    by (simp add: example_store_def format_filters_def FIELDS_def OPERATORS_def)
  show ?thesis by (rule conjI[OF a b])
qed

subsection \<open>The worked example of the specification\<close>

text \<open>
  Claim C5. For the input [MONTH EQ "6", MAX_ATTENDEES GT "10"] validation succeeds with
  the inequality field maxAttendees, and the query has the sort keys [maxAttendees, name]
  and the predicates [month = 6, maxAttendees > 10], in this order.
\<close>

theorem example_plan:
  "format_filters example_filters =
     Inr (Some ''maxAttendees'',
          [\<lparr>field = ''month'', operator = ''='', value' = ''6''\<rparr>,
           \<lparr>field = ''maxAttendees'', operator = ''>'', value' = ''10''\<rparr>])
   \<and> get_query example_filters =
     Inr \<lparr>orders = [''maxAttendees'', ''name''],
          filter_nodes = [FilterNode ''month'' ''='' (PyInt 6),
                          FilterNode ''maxAttendees'' ''>'' (PyInt 10)]\<rparr>"
  by (simp add: get_query_def format_filters_example py_int_6 py_int_10
        Conference_query_def query_order_def query_filter_def)

end
